theory Spec2Isabelle
  imports Main
begin

section \<open>JSON values as Python sees them\<close>

text \<open>
  Every value the program handles comes out of \<^verbatim>\<open>json.load\<close> or \<^verbatim>\<open>response.json()\<close>:
  \<^verbatim>\<open>None\<close>, booleans, integers, strings, lists and dictionaries. A dictionary is an
  association list in insertion order. Numbers with a fractional part are not represented.
  Strings are lists of 8-bit characters (ASCII text).
\<close>

datatype json =
    JNull
  | JBool bool
  | JInt int
  | JStr string
  | JList "json list"
  | JDict "(string \<times> json) list"

text \<open>Python truthiness: \<^verbatim>\<open>if x:\<close> and \<^verbatim>\<open>not x\<close>.\<close>

fun truthy :: "json \<Rightarrow> bool" where
  "truthy JNull = False"
| "truthy (JBool b) = b"
| "truthy (JInt n) = (n \<noteq> 0)"
| "truthy (JStr s) = (s \<noteq> [])"
| "truthy (JList xs) = (xs \<noteq> [])"
| "truthy (JDict kvs) = (kvs \<noteq> [])"

text \<open>\<^verbatim>\<open>d.get(k)\<close> and \<^verbatim>\<open>d.get(k, default)\<close> on a dictionary.\<close>

definition dict_get :: "(string \<times> json) list \<Rightarrow> string \<Rightarrow> json \<Rightarrow> json" where
  "dict_get kvs k dflt = (case map_of kvs k of None \<Rightarrow> dflt | Some v \<Rightarrow> v)"

text \<open>\<^verbatim>\<open>d[k] = v\<close>: an existing key keeps its position, a new key is appended.\<close>

fun dict_set :: "(string \<times> json) list \<Rightarrow> string \<Rightarrow> json \<Rightarrow> (string \<times> json) list" where
  "dict_set [] k v = [(k, v)]"
| "dict_set ((k', v') # kvs) k v =
     (if k' = k then (k, v) # kvs else (k', v') # dict_set kvs k v)"

section \<open>Python text formatting\<close>

text \<open>
  \<^verbatim>\<open>str(x)\<close> and \<^verbatim>\<open>repr(x)\<close> of a JSON value, as an f-string \<^verbatim>\<open>f"{x}"\<close> inserts it:
  a string is inserted as it is, anything else by its \<^verbatim>\<open>repr\<close>.
\<close>

definition digit :: "nat \<Rightarrow> char" where
  "digit n = char_of (48 + n mod 10)"

fun dec_nat :: "nat \<Rightarrow> string" where
  "dec_nat n = (if n < 10 then [digit n] else dec_nat (n div 10) @ [digit n])"

declare dec_nat.simps [simp del]

definition dec_int :: "int \<Rightarrow> string" where
  "dec_int i = (if i < 0 then CHR ''-'' # dec_nat (nat (- i)) else dec_nat (nat i))"

definition hex_digit :: "nat \<Rightarrow> char" where
  "hex_digit n =
     (if n mod 16 < 10 then char_of (48 + n mod 16) else char_of (87 + n mod 16))"

text \<open>One character inside a string \<^verbatim>\<open>repr\<close> quoted with \<open>q\<close>.\<close>

definition repr_char :: "char \<Rightarrow> char \<Rightarrow> string" where
  "repr_char q c =
     (if c = q \<or> c = CHR 0x5C then [CHR 0x5C, c]
      else if c = CHR 0x09 then [CHR 0x5C, CHR ''t'']
      else if c = CHR 0x0A then [CHR 0x5C, CHR ''n'']
      else if c = CHR 0x0D then [CHR 0x5C, CHR ''r'']
      else if of_char c < (32::nat) \<or> c = CHR 0x7F
        then [CHR 0x5C, CHR ''x'', hex_digit (of_char c div 16), hex_digit (of_char c)]
      else [c])"

text \<open>Double quotes are chosen when the string has a single quote and no double quote.\<close>

definition repr_str :: "string \<Rightarrow> string" where
  "repr_str s =
     (let q = (if CHR 0x27 \<in> set s \<and> CHR 0x22 \<notin> set s then CHR 0x22 else CHR 0x27)
      in [q] @ concat (map (repr_char q) s) @ [q])"

text \<open>\<^verbatim>\<open>sep.join(xs)\<close> on a list of strings.\<close>

fun join :: "string \<Rightarrow> string list \<Rightarrow> string" where
  "join sep [] = []"
| "join sep [x] = x"
| "join sep (x # y # ys) = x @ sep @ join sep (y # ys)"

fun py_repr :: "json \<Rightarrow> string" where
  "py_repr JNull = ''None''"
| "py_repr (JBool b) = (if b then ''True'' else ''False'')"
| "py_repr (JInt n) = dec_int n"
| "py_repr (JStr s) = repr_str s"
| "py_repr (JList xs) = ''['' @ join '', '' (map py_repr xs) @ '']''"
| "py_repr (JDict kvs) =
     ''{'' @ join '', '' (map (\<lambda>(k, v). repr_str k @ '': '' @ py_repr v) kvs) @ ''}''"

definition py_str :: "json \<Rightarrow> string" where
  "py_str v = (case v of JStr s \<Rightarrow> s | _ \<Rightarrow> py_repr v)"

text \<open>The exceptions that can leave a function of the program.\<close>

datatype exn = AttributeError | TypeError

datatype 'a outcome = Returned 'a | Raised exn

section \<open>Dates and times\<close>

text \<open>
  A \<^verbatim>\<open>datetime\<close> is a count of microseconds since 0001-01-01T00:00:00 (naive local
  time, as \<^verbatim>\<open>datetime.now()\<close> returns it); a \<^verbatim>\<open>timedelta\<close> is a difference of such
  counts. The finite range of \<^verbatim>\<open>datetime\<close> (years 1 to 9999) is not modelled.
\<close>

type_synonym datetime = int

definition timedelta_seconds :: "int \<Rightarrow> int" where
  "timedelta_seconds n = n * 1000000"


definition zero_pad :: "nat \<Rightarrow> int \<Rightarrow> string" where
  "zero_pad w n = (let ds = dec_nat (nat n) in replicate (w - length ds) CHR ''0'' @ ds)"

definition is_leap :: "int \<Rightarrow> bool" where
  "is_leap y = (y mod 4 = 0 \<and> (y mod 100 \<noteq> 0 \<or> y mod 400 = 0))"

definition month_lengths :: "int \<Rightarrow> int list" where
  "month_lengths y =
     [31, if is_leap y then 29 else 28, 31, 30, 31, 30, 31, 31, 30, 31, 30, 31]"

text \<open>The year (from 1) and the day of that year (from 0) of a day count.\<close>

definition year_of_days :: "int \<Rightarrow> int \<times> int" where
  "year_of_days n =
     (let n400 = n div 146097; r = n mod 146097;
          n100 = min (r div 36524) 3; r = r - n100 * 36524;
          n4 = r div 1461; r = r mod 1461;
          n1 = min (r div 365) 3; r = r - n1 * 365
      in (400 * n400 + 100 * n100 + 4 * n4 + n1 + 1, r))"

fun month_of_yday :: "int list \<Rightarrow> int \<Rightarrow> int \<Rightarrow> int \<times> int" where
  "month_of_yday [] m d = (m, d + 1)"
| "month_of_yday (l # ls) m d =
     (if d < l then (m, d + 1) else month_of_yday ls (m + 1) (d - l))"

text \<open>\<^verbatim>\<open>datetime.isoformat()\<close>: the fraction is printed only when it is not zero.\<close>

definition isoformat :: "datetime \<Rightarrow> string" where
  "isoformat t =
     (let days = t div 86400000000; us = t mod 86400000000;
          (y, yd) = year_of_days days;
          (mo, d) = month_of_yday (month_lengths y) 1 yd;
          secs = us div 1000000; frac = us mod 1000000
      in zero_pad 4 y @ ''-'' @ zero_pad 2 mo @ ''-'' @ zero_pad 2 d @ ''T''
         @ zero_pad 2 (secs div 3600) @ '':'' @ zero_pad 2 (secs div 60 mod 60) @ '':''
         @ zero_pad 2 (secs mod 60)
         @ (if frac = 0 then [] else ''.'' @ zero_pad 6 frac))"

section \<open>The token manager (token_manager.py)\<close>

text \<open>The attributes of a \<^verbatim>\<open>TokenManager\<close> object; \<^verbatim>\<open>None\<close> is \<^const>\<open>JNull\<close>.\<close>

record manager =
  config_file :: string
  refresh_token :: json
  client_id :: json
  access_token :: json
  token_expiry :: "datetime option"

text \<open>
  The world outside the object: the configuration file, the requests posted to the token
  endpoint (URL and JSON payload, oldest first) and the log records (oldest first).
  The file is missing, or reading it as JSON raises (with that message), or it holds a
  JSON value.
\<close>

datatype config_store = No_file | Unreadable string | Holds json

datatype level = DEBUG | INFO | ERROR

record world =
  store :: config_store
  posts :: "(string \<times> json) list"
  log :: "(level \<times> string) list"

definition logmsg :: "level \<Rightarrow> string \<Rightarrow> world \<Rightarrow> world" where
  "logmsg lv msg w = w\<lparr>log := log w @ [(lv, msg)]\<rparr>"

text \<open>
  What the token endpoint exchange does, seen from \<^verbatim>\<open>refresh_access_token\<close>:
  \<^verbatim>\<open>requests.post\<close> raises a \<^verbatim>\<open>RequestException\<close> (no response; the message),
  or \<^verbatim>\<open>raise_for_status()\<close> raises \<^verbatim>\<open>HTTPError\<close> for an error status (the message,
  the status code and the response text), or \<^verbatim>\<open>response.json()\<close> raises the
  \<^verbatim>\<open>JSONDecodeError\<close> of requests, a \<^verbatim>\<open>RequestException\<close> without a response
  (the message), or the body decodes to a JSON value.
\<close>

datatype http_result =
    Post_raised string
  | Status_raised string nat string
  | Json_raised string
  | Json_body json


text \<open>
  The message of the \<^verbatim>\<open>TypeError\<close> that \<^verbatim>\<open>config_data['refresh_token'] = ...\<close> raises
  when the file holds a JSON value that is not an object.
\<close>

fun item_assignment_error :: "json \<Rightarrow> string" where
  "item_assignment_error (JList xs) = ''list indices must be integers or slices, not str''"
| "item_assignment_error JNull = [CHR 0x27] @ ''NoneType'' @ [CHR 0x27] @ '' object does not support item assignment''"
| "item_assignment_error (JBool b) = [CHR 0x27] @ ''bool'' @ [CHR 0x27] @ '' object does not support item assignment''"
| "item_assignment_error (JInt n) = [CHR 0x27] @ ''int'' @ [CHR 0x27] @ '' object does not support item assignment''"
| "item_assignment_error (JStr s) = [CHR 0x27] @ ''str'' @ [CHR 0x27] @ '' object does not support item assignment''"
| "item_assignment_error (JDict kvs) = []"

text \<open>
  \<^verbatim>\<open>_save_config\<close>: the file's present contents are read (an empty dictionary when
  there is no file), four keys are assigned and the dictionary is written back. Every
  exception is caught and logged, and then nothing is written.
\<close>

definition save_config :: "manager \<Rightarrow> world \<Rightarrow> world" where
  "save_config m w =
     (case (case store w of
              No_file \<Rightarrow> Inr (JDict [])
            | Unreadable msg \<Rightarrow> Inl msg
            | Holds j \<Rightarrow> Inr j) of
        Inl msg \<Rightarrow>
          logmsg ERROR (''Error saving config to '' @ config_file m @ '': '' @ msg) w
      | Inr (JDict config_data) \<Rightarrow>
          (let config_data = dict_set config_data ''refresh_token'' (refresh_token m);
               config_data = (if truthy (client_id m)
                              then dict_set config_data ''client_id'' (client_id m)
                              else config_data);
               config_data = dict_set config_data ''access_token'' (access_token m);
               config_data = dict_set config_data ''token_expiry''
                               (case token_expiry m of
                                  Some t \<Rightarrow> JStr (isoformat t)
                                | None \<Rightarrow> JNull)
           in logmsg DEBUG (''Configuration saved to '' @ config_file m)
                (w\<lparr>store := Holds (JDict config_data)\<rparr>))
      | Inr j \<Rightarrow>
          logmsg ERROR (''Error saving config to '' @ config_file m @ '': ''
                        @ item_assignment_error j) w)"

text \<open>
  \<^verbatim>\<open>timedelta(seconds=x)\<close> accepts an integer or a boolean (\<^verbatim>\<open>True\<close> is 1) and raises
  \<^verbatim>\<open>TypeError\<close> for every other JSON value.
\<close>

fun seconds_arg :: "json \<Rightarrow> int option" where
  "seconds_arg (JInt n) = Some n"
| "seconds_arg (JBool b) = Some (if b then 1 else 0)"
| "seconds_arg _ = None"

definition token_url :: string where
  "token_url = ''https://api.workos.com/user_management/authenticate''"

text \<open>
  \<^verbatim>\<open>refresh_access_token\<close>. \<open>now\<close> is the reading of \<^verbatim>\<open>datetime.now()\<close> on the
  success path and \<open>resp\<close> is what the exchange with the token endpoint does. Only
  \<^verbatim>\<open>RequestException\<close> is caught: \<^verbatim>\<open>result.get\<close> on a body that is not an object
  raises \<^verbatim>\<open>AttributeError\<close>, and a wrong \<^verbatim>\<open>expires_in\<close> raises \<^verbatim>\<open>TypeError\<close> after
  the tokens have been assigned.
\<close>

definition refresh_access_token ::
  "manager \<Rightarrow> world \<Rightarrow> datetime \<Rightarrow> http_result \<Rightarrow> manager \<times> world \<times> bool outcome" where
  "refresh_access_token m w now resp =
     (let w = logmsg INFO ''Obtaining new access token from refresh token...'' w in
      if \<not> truthy (refresh_token m) then
        (m, logmsg ERROR ''No refresh token available in config.json'' w, Returned False)
      else if \<not> truthy (client_id m) then
        (m, logmsg ERROR ''No client_id found in config.json'' w, Returned False)
      else
        (let data = JDict [(''client_id'', client_id m),
                           (''grant_type'', JStr ''refresh_token''),
                           (''refresh_token'', refresh_token m)];
             w = w\<lparr>posts := posts w @ [(token_url, data)]\<rparr>
         in case resp of
              Post_raised msg \<Rightarrow>
                (m, logmsg ERROR (''Error obtaining access token: '' @ msg) w, Returned False)
            | Status_raised msg status body \<Rightarrow>
                (m, logmsg DEBUG (''Response body: '' @ body)
                      (logmsg DEBUG (''Response status: '' @ dec_nat status)
                         (logmsg ERROR (''Error obtaining access token: '' @ msg) w)),
                 Returned False)
            | Json_raised msg \<Rightarrow>
                (m, logmsg ERROR (''Error obtaining access token: '' @ msg) w, Returned False)
            | Json_body (JDict result) \<Rightarrow>
                (let m = m\<lparr>access_token := dict_get result ''access_token'' JNull\<rparr>;
                     new_refresh_token = dict_get result ''refresh_token'' JNull;
                     (m, w) = (if truthy new_refresh_token
                               then (m\<lparr>refresh_token := new_refresh_token\<rparr>,
                                     logmsg INFO ''Refresh token was rotated'' w)
                               else (m, w));
                     expires_in = dict_get result ''expires_in'' (JInt 3600)
                 in case seconds_arg expires_in of
                      None \<Rightarrow> (m, w, Raised TypeError)
                    | Some n \<Rightarrow>
                        (let m = m\<lparr>token_expiry := Some (now + timedelta_seconds n)\<rparr>;
                             w = save_config m w
                         in (m, logmsg INFO (''Successfully obtained access token (expires in ''
                                             @ py_str expires_in @ '' seconds)'') w,
                             Returned True)))
            | Json_body _ \<Rightarrow> (m, w, Raised AttributeError)))"


section \<open>Observations on the token manager\<close>









section \<open>Expiry check\<close>



section \<open>Dictionary updates\<close>

lemma map_of_dict_set: "map_of (dict_set kvs k v) = (map_of kvs)(k \<mapsto> v)"
  by (induction kvs) (auto simp: fun_eq_iff)

lemma keys_dict_set: "fst ` set (dict_set kvs k v) = insert k (fst ` set kvs)"
  using arg_cong [OF map_of_dict_set, of dom kvs k v]
  by (simp add: dom_map_of_conv_image_fst)


section \<open>Refresh without credentials\<close>

text \<open>
  Claim C4. \<^verbatim>\<open>refresh_access_token\<close> needs both the refresh token and the client id. When
  either is absent it returns false after logging the configuration error, and the world
  is unchanged but for the two log records: nothing is posted to the token endpoint and
  the configuration file is not touched.
\<close>

theorem refresh_requires_credentials:
  assumes "\<not> truthy (refresh_token m) \<or> \<not> truthy (client_id m)"
  shows "refresh_access_token m w now resp =
           (m, w\<lparr>log := log w @
                   [(INFO, ''Obtaining new access token from refresh token...''),
                    (ERROR, if \<not> truthy (refresh_token m)
                            then ''No refresh token available in config.json''
                            else ''No client_id found in config.json'')]\<rparr>,
            Returned False)"
  using assms by (auto simp: refresh_access_token_def logmsg_def Let_def)

theorem refresh_requires_credentials_witness:
  "\<not> truthy (client_id \<lparr>config_file = ''config.json'', refresh_token = JStr ''r'',
         client_id = JNull, access_token = JNull, token_expiry = None\<rparr>)
   \<and> refresh_access_token
        \<lparr>config_file = ''config.json'', refresh_token = JStr ''r'',
         client_id = JNull, access_token = JNull, token_expiry = None\<rparr>
        \<lparr>store = No_file, posts = [], log = []\<rparr> 0
        (Json_body (JDict [(''access_token'', JStr ''a'')]))
      = (\<lparr>config_file = ''config.json'', refresh_token = JStr ''r'',
          client_id = JNull, access_token = JNull, token_expiry = None\<rparr>,
         \<lparr>store = No_file, posts = [],
          log = [(INFO, ''Obtaining new access token from refresh token...''),
                 (ERROR, ''No client_id found in config.json'')]\<rparr>,
         Returned False)"
  using refresh_requires_credentials
    [where m = "\<lparr>config_file = ''config.json'', refresh_token = JStr ''r'',
                 client_id = JNull, access_token = JNull, token_expiry = None\<rparr>"
       and w = "\<lparr>store = No_file, posts = [], log = []\<rparr>" and now = 0
       and resp = "Json_body (JDict [(''access_token'', JStr ''a'')])"]
  by simp

section \<open>Failing refresh\<close>



section \<open>Getting a valid token\<close>





section \<open>Successful refresh\<close>













section \<open>What a refresh writes\<close>




section \<open>A response without an access token\<close>




end
